theory Spec2Isabelle
  imports Main
begin

section \<open>Python strings\<close>

text \<open>
  The endpoint \<^verbatim>\<open>rename_image\<close> of \<^verbatim>\<open>backend/app/routes/images.py\<close> works on Python
  \<^verbatim>\<open>str\<close> values. A \<^verbatim>\<open>str\<close> is modelled as a \<^typ>\<open>string\<close> holding its UTF-8 encoding, as it
  arrives in the JSON body: an ASCII character is one \<^typ>\<open>char\<close>, any other character is
  the two to four bytes of its encoding. The delimiters the endpoint looks for (the invalid
  characters, the dot, the slash, the space of \<^verbatim>\<open>endswith\<close>) are ASCII, and an ASCII byte never
  occurs inside the encoding of another character, so these tests read the bytes as they
  read the characters.
\<close>

definition whitespace :: "string list" where
  \<comment> \<open>the characters for which \<^verbatim>\<open>str.isspace\<close> holds, each in UTF-8: U+0009 to U+000D,
      U+001C to U+0020, U+0085, U+00A0, U+1680, U+2000 to U+200A, U+2028, U+2029, U+202F,
      U+205F, U+3000\<close>
  "whitespace =
     [[CHR 0x09], [CHR 0x0A], [CHR 0x0B], [CHR 0x0C], [CHR 0x0D],
      [CHR 0x1C], [CHR 0x1D], [CHR 0x1E], [CHR 0x1F], [CHR 0x20],
      [CHR 0xC2, CHR 0x85], [CHR 0xC2, CHR 0xA0],
      [CHR 0xE1, CHR 0x9A, CHR 0x80],
      [CHR 0xE2, CHR 0x80, CHR 0x80], [CHR 0xE2, CHR 0x80, CHR 0x81],
      [CHR 0xE2, CHR 0x80, CHR 0x82], [CHR 0xE2, CHR 0x80, CHR 0x83],
      [CHR 0xE2, CHR 0x80, CHR 0x84], [CHR 0xE2, CHR 0x80, CHR 0x85],
      [CHR 0xE2, CHR 0x80, CHR 0x86], [CHR 0xE2, CHR 0x80, CHR 0x87],
      [CHR 0xE2, CHR 0x80, CHR 0x88], [CHR 0xE2, CHR 0x80, CHR 0x89],
      [CHR 0xE2, CHR 0x80, CHR 0x8A],
      [CHR 0xE2, CHR 0x80, CHR 0xA8], [CHR 0xE2, CHR 0x80, CHR 0xA9],
      [CHR 0xE2, CHR 0x80, CHR 0xAF],
      [CHR 0xE2, CHR 0x81, CHR 0x9F],
      [CHR 0xE3, CHR 0x80, CHR 0x80]]"

text \<open>
  The loop of \<^verbatim>\<open>strip\<close> at one end of the string: as long as the string starts with one of
  the given sequences, that sequence is dropped.
\<close>

function strip_leading :: "string list \<Rightarrow> string \<Rightarrow> string" where
  "strip_leading seqs s =
     (case find (\<lambda>q. q \<noteq> [] \<and> take (length q) s = q) seqs of
        Some q \<Rightarrow> strip_leading seqs (drop (length q) s)
      | None \<Rightarrow> s)"
  by pat_completeness auto
termination
proof (relation "measure (\<lambda>(seqs, s). length s)")
  show "wf (measure (\<lambda>(seqs, s). length s))"
    by simp
next
  fix seqs :: "string list" and s q :: string
  assume "find (\<lambda>q. q \<noteq> [] \<and> take (length q) s = q) seqs = Some q"
  then have q: "q \<noteq> []" and t: "take (length q) s = q"
    by (auto simp: find_Some_iff)
  from q t have "s \<noteq> []" by auto
  with q show "((seqs, drop (length q) s), (seqs, s)) \<in> measure (\<lambda>(seqs, s). length s)"
    by simp
qed

definition str_strip :: "string \<Rightarrow> string" where
  \<comment> \<open>\<^verbatim>\<open>s.strip()\<close>: white space is removed at the start, then at the end (the string and the
      sequences read backwards)\<close>
  "str_strip s = rev (strip_leading (map rev whitespace) (rev (strip_leading whitespace s)))"

definition str_endswith :: "string \<Rightarrow> string \<Rightarrow> bool" where
  \<comment> \<open>\<^verbatim>\<open>s.endswith(suffix)\<close>\<close>
  "str_endswith s suffix \<longleftrightarrow>
     length suffix \<le> length s \<and> drop (length s - length suffix) s = suffix"

definition str_startswith :: "string \<Rightarrow> string \<Rightarrow> bool" where
  \<comment> \<open>\<^verbatim>\<open>s.startswith(prefix)\<close>\<close>
  "str_startswith s prefix \<longleftrightarrow> take (length prefix) s = prefix"

definition upper_char :: "char \<Rightarrow> char" where
  "upper_char c =
     (let n = of_char c :: nat in if 97 \<le> n \<and> n \<le> 122 then char_of (n - 32) else c)"

definition str_upper :: "string \<Rightarrow> string" where
  \<comment> \<open>\<^verbatim>\<open>s.upper()\<close> on the ASCII letters; the bytes of other characters are kept. The endpoint
      only asks whether the result is one of the reserved names, which are ASCII: the
      characters outside ASCII whose upper case is ASCII give I, S, SS, FF, FI, FL, FFI, FFL
      and ST, and no reserved name holds I, S or F\<close>
  "str_upper s = map upper_char s"

definition str_split_1 :: "string \<Rightarrow> char \<Rightarrow> string list" where
  \<comment> \<open>\<^verbatim>\<open>s.split(sep, 1)\<close> for a one-character separator: at most one split, at the first separator\<close>
  "str_split_1 s sep =
     (if sep \<in> set s
      then [takeWhile (\<lambda>c. c \<noteq> sep) s, tl (dropWhile (\<lambda>c. c \<noteq> sep) s)]
      else [s])"

definition str_rfind :: "string \<Rightarrow> char \<Rightarrow> int" where
  \<comment> \<open>\<^verbatim>\<open>s.rfind(c)\<close>: the index of the last occurrence, or -1\<close>
  "str_rfind s c =
     (if c \<in> set s
      then int (length s) - 1 - int (length (takeWhile (\<lambda>x. x \<noteq> c) (rev s)))
      else - 1)"

definition str_rstrip_char :: "string \<Rightarrow> char \<Rightarrow> string" where
  \<comment> \<open>\<^verbatim>\<open>s.rstrip(c)\<close> for a single character\<close>
  "str_rstrip_char s c = rev (dropWhile (\<lambda>x. x = c) (rev s))"

definition str_of_digit :: "nat \<Rightarrow> string" where
  \<comment> \<open>\<^verbatim>\<open>str(i)\<close> for a one-digit number, as the f-string \<^verbatim>\<open>f"COM{i}"\<close> renders it\<close>
  "str_of_digit i = [char_of (48 + i)]"


section \<open>The functions of \<^verbatim>\<open>os.path\<close> the endpoint calls (POSIX flavour)\<close>

definition path_dirname :: "string \<Rightarrow> string" where
  \<comment> \<open>\<^verbatim>\<open>os.path.dirname\<close>: the head up to the last slash, trailing slashes removed unless
      the head is slashes only\<close>
  "path_dirname p =
     (let i = str_rfind p (CHR ''/'') + 1;
          head = take (nat i) p
      in if head \<noteq> [] \<and> head \<noteq> replicate (length head) (CHR ''/'')
         then str_rstrip_char head (CHR ''/'')
         else head)"

definition path_splitext :: "string \<Rightarrow> string \<times> string" where
  \<comment> \<open>\<^verbatim>\<open>os.path.splitext\<close>: split at the last dot of the last component, unless only dots
      lead up to it\<close>
  "path_splitext p =
     (let sepIndex = str_rfind p (CHR ''/'');
          dotIndex = str_rfind p (CHR ''.'')
      in if dotIndex > sepIndex \<and>
            list_ex (\<lambda>c. c \<noteq> CHR ''.'')
              (take (nat (dotIndex - (sepIndex + 1))) (drop (nat (sepIndex + 1)) p))
         then (take (nat dotIndex) p, drop (nat dotIndex) p)
         else (p, []))"

definition path_join :: "string \<Rightarrow> string \<Rightarrow> string" where
  \<comment> \<open>\<^verbatim>\<open>os.path.join(a, b)\<close>\<close>
  "path_join a b =
     (if str_startswith b ''/'' then b
      else if a = [] \<or> str_endswith a ''/'' then a @ b
      else a @ ''/'' @ b)"


section \<open>Requests, responses and exceptions\<close>

datatype RenameImageRequest = RenameImageRequest (req_image_id: string) (req_rename: string)

datatype RenameImageResponse = RenameImageResponse (resp_success: bool) (resp_message: string)

datatype ErrorResponse = ErrorResponse (success: bool) (error: string) (message: string)

datatype HTTPException = HTTPException (status_code: nat) (detail: ErrorResponse)

text \<open>
  An \<^verbatim>\<open>OSError\<close> carries its error number and the file name it is about. Python raises the
  subclass \<^verbatim>\<open>FileExistsError\<close> exactly for the error number \<^verbatim>\<open>EEXIST\<close>.
\<close>

datatype OSError = OSError (errno: nat) (filename: string)

definition EEXIST :: nat where "EEXIST = 17"

definition ENOENT :: nat where "ENOENT = 2"

definition is_FileExistsError :: "OSError \<Rightarrow> bool" where
  "is_FileExistsError e \<longleftrightarrow> errno e = EEXIST"

text \<open>The exceptions that travel through the \<^verbatim>\<open>try\<close> blocks of the endpoint.\<close>

datatype exn = HTTP HTTPException | OS OSError


section \<open>The file system, its faults and the log\<close>

datatype syscall =
    SysOpen string
  | SysClose
  | SysRename string string
  | SysUnlink string

text \<open>
  The world the endpoint acts on: the regular files by path with their contents, the
  trace of the \<^verbatim>\<open>os\<close> calls made so far, and the lines written by \<^verbatim>\<open>logger.error\<close>.
\<close>

record world =
  files :: "string \<rightharpoonup> string"
  calls :: "syscall list"
  log :: "string list"

text \<open>
  What the operating system adds to the file contents: for each of the four calls an error
  number with which the call fails although the files would allow it (a missing directory,
  no permission, a full or failing disk), and the text \<^verbatim>\<open>str(e)\<close> of an \<^verbatim>\<open>OSError\<close>.
\<close>

record os_env =
  open_fault :: "nat option"
  close_fault :: "nat option"
  rename_fault :: "nat option"
  unlink_fault :: "nat option"
  exc_str :: "OSError \<Rightarrow> string"

definition traced :: "syscall \<Rightarrow> world \<Rightarrow> world" where
  "traced c w = w\<lparr>calls := calls w @ [c]\<rparr>"

definition os_open_excl :: "os_env \<Rightarrow> string \<Rightarrow> world \<Rightarrow> (OSError + unit) \<times> world" where
  \<comment> \<open>\<^verbatim>\<open>os.open(path, O_CREAT | O_EXCL | O_WRONLY)\<close>: fails with \<^verbatim>\<open>EEXIST\<close> when the path
      exists, creates an empty file otherwise\<close>
  "os_open_excl env path w =
     (let w1 = traced (SysOpen path) w
      in if files w path \<noteq> None then (Inl (OSError EEXIST path), w1)
         else (case open_fault env of
                 Some n \<Rightarrow> (Inl (OSError n path), w1)
               | None \<Rightarrow> (Inr (), w1\<lparr>files := (files w1)(path \<mapsto> [])\<rparr>)))"

definition os_close :: "os_env \<Rightarrow> world \<Rightarrow> (OSError + unit) \<times> world" where
  \<comment> \<open>\<^verbatim>\<open>os.close(fd)\<close>\<close>
  "os_close env w =
     (let w1 = traced SysClose w
      in case close_fault env of
           Some n \<Rightarrow> (Inl (OSError n []), w1)
         | None \<Rightarrow> (Inr (), w1))"

definition os_rename :: "os_env \<Rightarrow> string \<Rightarrow> string \<Rightarrow> world \<Rightarrow> (OSError + unit) \<times> world" where
  \<comment> \<open>\<^verbatim>\<open>os.rename(src, dst)\<close>: the file moves to \<^verbatim>\<open>dst\<close>, replacing what is there\<close>
  "os_rename env src dst w =
     (let w1 = traced (SysRename src dst) w
      in case rename_fault env of
           Some n \<Rightarrow> (Inl (OSError n src), w1)
         | None \<Rightarrow>
             (case files w src of
                None \<Rightarrow> (Inl (OSError ENOENT src), w1)
              | Some data \<Rightarrow> (Inr (), w1\<lparr>files := ((files w1)(src := None))(dst \<mapsto> data)\<rparr>)))"

definition os_unlink :: "os_env \<Rightarrow> string \<Rightarrow> world \<Rightarrow> (OSError + unit) \<times> world" where
  \<comment> \<open>\<^verbatim>\<open>os.unlink(path)\<close>\<close>
  "os_unlink env path w =
     (let w1 = traced (SysUnlink path) w
      in case unlink_fault env of
           Some n \<Rightarrow> (Inl (OSError n path), w1)
         | None \<Rightarrow>
             (case files w path of
                None \<Rightarrow> (Inl (OSError ENOENT path), w1)
              | Some data \<Rightarrow> (Inr (), w1\<lparr>files := (files w1)(path := None)\<rparr>)))"

definition logger_error :: "string \<Rightarrow> world \<Rightarrow> world" where
  "logger_error line w = w\<lparr>log := log w @ [line]\<rparr>"


section \<open>The endpoint \<^verbatim>\<open>rename_image\<close>\<close>

definition invalid_chars :: "char set" where
  \<comment> \<open>\<^verbatim>\<open>set('<>:"/\\\\|?*!^')\<close>: the literal holds the backslash twice\<close>
  "invalid_chars =
     set [CHR ''<'', CHR ''>'', CHR '':'', CHR 0x22, CHR ''/'', CHR 0x5C, CHR 0x5C,
          CHR ''|'', CHR ''?'', CHR ''*'', CHR ''!'', CHR ''^'']"

definition reserved_device_names :: "string set" where
  "reserved_device_names =
     set ([''CON'', ''PRN'', ''NUL'', ''AUX'']
          @ map (\<lambda>i. ''COM'' @ str_of_digit i) [1..<10]
          @ map (\<lambda>i. ''LPT'' @ str_of_digit i) [1..<10])"

definition validation_error :: "string \<Rightarrow> HTTPException" where
  \<comment> \<open>status 400 with the error kind of every validation failure\<close>
  "validation_error msg = HTTPException 400 (ErrorResponse False ''Validation Error'' msg)"

definition msg_empty_id :: string where
  "msg_empty_id = ''Image ID cannot be empty''"

definition msg_empty_name :: string where
  "msg_empty_name = ''New image name cannot be empty''"

definition msg_invalid_chars :: string where
  "msg_invalid_chars = ''New image name contains invalid characters.''"

definition msg_only_dots :: string where
  "msg_only_dots = ''New image name cannot be '.' , '..' or consist only of dots.''"

definition msg_trailing :: string where
  "msg_trailing = ''New image name cannot end with a dot or space.''"

definition msg_reserved :: string where
  \<comment> \<open>the two dashes of the source are en dashes, three bytes each in UTF-8\<close>
  "msg_reserved =
     ''New image name cannot use a reserved Windows device name (CON, PRN, NUL, AUX, COM1''
     @ [CHR 0xE2, CHR 0x80, CHR 0x93] @ ''COM9, LPT1'' @ [CHR 0xE2, CHR 0x80, CHR 0x93]
     @ ''LPT9).''"

definition not_found_error :: "string \<Rightarrow> HTTPException" where
  "not_found_error image_id =
     HTTPException 404 (ErrorResponse False ''Image Not Found''
       (''Image with ID '' @ [CHR 0x27] @ image_id @ [CHR 0x27] @ '' does not exist.''))"

definition file_exists_error :: HTTPException where
  "file_exists_error =
     HTTPException 400 (ErrorResponse False ''File Exists''
       ''A file with the new name already exists.'')"

definition internal_error :: "string \<Rightarrow> HTTPException" where
  "internal_error cause =
     HTTPException 500 (ErrorResponse False ''Internal server error''
       (''Unable to rename image: '' @ cause))"

definition cleanup_log_line :: "string \<Rightarrow> string \<Rightarrow> string" where
  "cleanup_log_line new_file_path cause =
     ''Failed to clean up placeholder file '' @ [CHR 0x27] @ new_file_path @ [CHR 0x27]
     @ '': '' @ cause"

definition success_message :: "string \<Rightarrow> string \<Rightarrow> string" where
  "success_message new_name extension =
     ''Successfully renamed image to '' @ [CHR 0x27] @ new_name @ extension @ [CHR 0x27]"

text \<open>
  The innermost \<^verbatim>\<open>try\<close>: reserve the target path with an empty placeholder. The Boolean
  is the variable \<^verbatim>\<open>placeholder_created\<close>, set only after \<^verbatim>\<open>os.close\<close> has returned. A
  \<^verbatim>\<open>FileExistsError\<close> becomes the HTTP error 400, any other exception passes.
\<close>

definition on_file_exists :: "OSError \<Rightarrow> exn" where
  "on_file_exists e = (if is_FileExistsError e then HTTP file_exists_error else OS e)"

definition reserve_placeholder :: "os_env \<Rightarrow> string \<Rightarrow> world \<Rightarrow> (exn + unit) \<times> bool \<times> world" where
  "reserve_placeholder env new_file_path w =
     (case os_open_excl env new_file_path w of
        (Inl e, w1) \<Rightarrow> (Inl (on_file_exists e), False, w1)
      | (Inr fd, w1) \<Rightarrow>
          (case os_close env w1 of
             (Inl e, w2) \<Rightarrow> (Inl (on_file_exists e), False, w2)
           | (Inr u, w2) \<Rightarrow> (Inr (), True, w2)))"

text \<open>
  The handler \<^verbatim>\<open>except Exception as e\<close> of the middle \<^verbatim>\<open>try\<close>: remove the placeholder if it
  was created, log a failure of that removal, and raise \<^verbatim>\<open>e\<close> again.
\<close>

definition cleanup_placeholder ::
  "os_env \<Rightarrow> bool \<Rightarrow> string \<Rightarrow> OSError \<Rightarrow> world \<Rightarrow> (exn + unit) \<times> world" where
  "cleanup_placeholder env placeholder_created new_file_path e w =
     (if placeholder_created
      then (case os_unlink env new_file_path w of
              (Inl cleanup_err, w1) \<Rightarrow>
                (Inl (OS e),
                 logger_error (cleanup_log_line new_file_path (exc_str env cleanup_err)) w1)
            | (Inr u, w1) \<Rightarrow> (Inl (OS e), w1))
      else (Inl (OS e), w))"

text \<open>The middle \<^verbatim>\<open>try\<close>: reserve, rename, and clean up when something other than an HTTP
  error was raised.\<close>

definition reserve_and_rename ::
  "os_env \<Rightarrow> string \<Rightarrow> string \<Rightarrow> world \<Rightarrow> (exn + unit) \<times> world" where
  "reserve_and_rename env image_path new_file_path w =
     (case reserve_placeholder env new_file_path w of
        (Inl (HTTP h), placeholder_created, w1) \<Rightarrow> (Inl (HTTP h), w1)
      | (Inl (OS e), placeholder_created, w1) \<Rightarrow>
          cleanup_placeholder env placeholder_created new_file_path e w1
      | (Inr u, placeholder_created, w1) \<Rightarrow>
          (case os_rename env image_path new_file_path w1 of
             (Inl e, w2) \<Rightarrow> cleanup_placeholder env placeholder_created new_file_path e w2
           | (Inr u', w2) \<Rightarrow> (Inr (), w2)))"

text \<open>Lines 240 to 242: the target path, from the directory and the extension of the
  current path.\<close>

definition new_file_path_of :: "string \<Rightarrow> string \<Rightarrow> string" where
  "new_file_path_of image_path new_name =
     (let folder_path = path_dirname image_path;
          extension = snd (path_splitext image_path)
      in path_join folder_path (new_name @ extension))"

text \<open>
  Lines 240 to 299: the work on the disk and the outer handlers. An \<^verbatim>\<open>HTTPException\<close> leaves
  the endpoint as it is; any other exception is logged and becomes the HTTP error 500 with
  the text of the exception.
\<close>

definition rename_on_disk ::
  "os_env \<Rightarrow> string \<Rightarrow> string \<Rightarrow> world \<Rightarrow> (HTTPException + RenameImageResponse) \<times> world" where
  "rename_on_disk env image_path new_name w =
     (let extension = snd (path_splitext image_path);
          new_file_path = new_file_path_of image_path new_name
      in case reserve_and_rename env image_path new_file_path w of
           (Inl (HTTP h), w1) \<Rightarrow> (Inl h, w1)
         | (Inl (OS e), w1) \<Rightarrow>
             (Inl (internal_error (exc_str env e)),
              logger_error (''Error renaming image: '' @ exc_str env e) w1)
         | (Inr u, w1) \<Rightarrow>
             (Inr (RenameImageResponse True (success_message new_name extension)), w1))"

text \<open>
  Lines 229 to 238: the lookup \<^verbatim>\<open>db_get_image_path_by_id\<close> of the database layer is a
  parameter: it returns the path stored for an image id, or \<^verbatim>\<open>None\<close>. The test
  \<^verbatim>\<open>not image_path\<close> also holds for the empty path.
\<close>

definition lookup_and_rename ::
  "(string \<Rightarrow> string option) \<Rightarrow> os_env \<Rightarrow> string \<Rightarrow> string \<Rightarrow> world
     \<Rightarrow> (HTTPException + RenameImageResponse) \<times> world" where
  "lookup_and_rename db_get_image_path_by_id env image_id new_name w =
     (case db_get_image_path_by_id image_id of
        None \<Rightarrow> (Inl (not_found_error image_id), w)
      | Some image_path \<Rightarrow>
          if image_path = [] then (Inl (not_found_error image_id), w)
          else rename_on_disk env image_path new_name w)"

text \<open>
  The endpoint: lines 145 to 227 validate the request, in this order. The result is the
  response, or the \<^verbatim>\<open>HTTPException\<close> that leaves the endpoint, with the world after the call.
\<close>

definition rename_image ::
  "(string \<Rightarrow> string option) \<Rightarrow> os_env \<Rightarrow> RenameImageRequest \<Rightarrow> world
     \<Rightarrow> (HTTPException + RenameImageResponse) \<times> world" where
  "rename_image db_get_image_path_by_id env request w =
     (let image_id = str_strip (req_image_id request);
          raw_name = req_rename request;
          new_name = str_strip raw_name
      in if image_id = [] then (Inl (validation_error msg_empty_id), w)
         else if new_name = [] then (Inl (validation_error msg_empty_name), w)
         else if list_ex (\<lambda>ch. ch \<in> invalid_chars) new_name
           then (Inl (validation_error msg_invalid_chars), w)
         else if list_all (\<lambda>ch. ch = CHR ''.'') new_name
           then (Inl (validation_error msg_only_dots), w)
         else if raw_name \<noteq> [] \<and> (str_endswith raw_name ''.'' \<or> str_endswith raw_name '' '')
           then (Inl (validation_error msg_trailing), w)
         else
           (let base_stem = hd (str_split_1 new_name (CHR ''.''))
            in if base_stem \<noteq> [] \<and> str_upper base_stem \<in> reserved_device_names
               then (Inl (validation_error msg_reserved), w)
               else lookup_and_rename db_get_image_path_by_id env image_id new_name w))"


section \<open>The validation rules in the words of the specification\<close>

definition spec_invalid_characters :: "char list" where
  "spec_invalid_characters =
     [CHR ''<'', CHR ''>'', CHR '':'', CHR 0x22, CHR ''/'', CHR 0x5C, CHR ''|'', CHR ''?'',
      CHR ''*'', CHR ''!'', CHR ''^'']"

definition spec_reserved_names :: "string list" where
  "spec_reserved_names =
     [''CON'', ''PRN'', ''NUL'', ''AUX'',
      ''COM1'', ''COM2'', ''COM3'', ''COM4'', ''COM5'', ''COM6'', ''COM7'', ''COM8'', ''COM9'',
      ''LPT1'', ''LPT2'', ''LPT3'', ''LPT4'', ''LPT5'', ''LPT6'', ''LPT7'', ''LPT8'', ''LPT9'']"

definition lower_char :: "char \<Rightarrow> char" where
  "lower_char c =
     (let n = of_char c :: nat in if 65 \<le> n \<and> n \<le> 90 then char_of (n + 32) else c)"

definition equal_ignoring_case :: "string \<Rightarrow> string \<Rightarrow> bool" where
  "equal_ignoring_case a b \<longleftrightarrow> map lower_char a = map lower_char b"

definition stem_before_first_dot :: "string \<Rightarrow> string" where
  "stem_before_first_dot s = takeWhile (\<lambda>c. c \<noteq> CHR ''.'') s"

definition is_reserved_stem :: "string \<Rightarrow> bool" where
  "is_reserved_stem s \<longleftrightarrow> list_ex (equal_ignoring_case s) spec_reserved_names"

definition rule_id_nonempty :: "RenameImageRequest \<Rightarrow> bool" where
  "rule_id_nonempty r \<longleftrightarrow> str_strip (req_image_id r) \<noteq> []"

definition rule_name_nonempty :: "RenameImageRequest \<Rightarrow> bool" where
  "rule_name_nonempty r \<longleftrightarrow> str_strip (req_rename r) \<noteq> []"

definition rule_no_invalid_character :: "RenameImageRequest \<Rightarrow> bool" where
  "rule_no_invalid_character r \<longleftrightarrow>
     \<not> list_ex (\<lambda>c. c \<in> set spec_invalid_characters) (str_strip (req_rename r))"

definition rule_not_all_dots :: "RenameImageRequest \<Rightarrow> bool" where
  "rule_not_all_dots r \<longleftrightarrow> \<not> list_all (\<lambda>c. c = CHR ''.'') (str_strip (req_rename r))"

definition rule_no_trailing_dot_or_space :: "RenameImageRequest \<Rightarrow> bool" where
  "rule_no_trailing_dot_or_space r \<longleftrightarrow>
     \<not> (req_rename r \<noteq> [] \<and> last (req_rename r) \<in> {CHR ''.'', CHR '' ''})"

definition rule_not_reserved :: "RenameImageRequest \<Rightarrow> bool" where
  "rule_not_reserved r \<longleftrightarrow>
     \<not> is_reserved_stem (stem_before_first_dot (str_strip (req_rename r)))"

definition validation_rules :: "((RenameImageRequest \<Rightarrow> bool) \<times> string) list" where
  \<comment> \<open>the six rules in the order of the specification, each with the message that reports it\<close>
  "validation_rules =
     [(rule_id_nonempty, msg_empty_id),
      (rule_name_nonempty, msg_empty_name),
      (rule_no_invalid_character, msg_invalid_chars),
      (rule_not_all_dots, msg_only_dots),
      (rule_no_trailing_dot_or_space, msg_trailing),
      (rule_not_reserved, msg_reserved)]"

definition first_failure :: "RenameImageRequest \<Rightarrow> string option" where
  \<comment> \<open>the message of the first rule the request breaks, if it breaks one\<close>
  "first_failure r = map_option snd (find (\<lambda>(rule, msg). \<not> rule r) validation_rules)"

definition is_validation_error :: "HTTPException \<Rightarrow> bool" where
  "is_validation_error h \<longleftrightarrow>
     status_code h = 400 \<and> success (detail h) = False \<and> error (detail h) = ''Validation Error''"


section \<open>A sample catalogue, disk and operating system\<close>

definition example_lookup :: "string \<Rightarrow> string option" where
  "example_lookup = [''image_123'' \<mapsto> ''/data/old_name.jpg'']"

definition example_world :: world where
  "example_world =
     \<lparr>files = [''/data/old_name.jpg'' \<mapsto> ''dummy image data''], calls = [], log = []\<rparr>"

definition no_faults :: os_env where
  "no_faults =
     \<lparr>open_fault = None, close_fault = None, rename_fault = None, unlink_fault = None,
      exc_str = (\<lambda>e. ''disk error'')\<rparr>"

text \<open>The image id with an em space (U+2003) before it and a space after it; the new name
  with a tab before it and a no-break space (U+00A0) after it.\<close>

definition padded_id :: string where
  "padded_id = [CHR 0xE2, CHR 0x80, CHR 0x83] @ ''image_123 ''"

definition padded_name :: string where
  "padded_name = [CHR 0x09] @ ''new_name'' @ [CHR 0xC2, CHR 0xA0]"

text \<open>A string of white space only: an em space, a space and a no-break space.\<close>

definition blank :: string where
  "blank = [CHR 0xE2, CHR 0x80, CHR 0x83] @ '' '' @ [CHR 0xC2, CHR 0xA0]"


definition EIO :: nat where "EIO = 5"

definition EBUSY :: nat where "EBUSY = 16"

definition example_world_taken :: world where
  "example_world_taken =
     \<lparr>files = [''/data/old_name.jpg'' \<mapsto> ''dummy image data'',
               ''/data/new_name.jpg'' \<mapsto> ''another image''],
      calls = [], log = []\<rparr>"

definition rename_fails :: os_env where
  "rename_fails = no_faults\<lparr>rename_fault := Some EIO\<rparr>"

definition cleanup_fails :: os_env where
  "cleanup_fails = no_faults\<lparr>rename_fault := Some EIO, unlink_fault := Some EBUSY\<rparr>"


definition example_lookup_synced :: "string \<Rightarrow> string option" where
  "example_lookup_synced = [''image_123'' \<mapsto> ''/data/new_name.jpg'']"

definition scan_lookup :: "string \<Rightarrow> string option" where
  "scan_lookup = [''image_123'' \<mapsto> ''/data/scan'']"

definition scan_lookup_synced :: "string \<Rightarrow> string option" where
  "scan_lookup_synced = [''image_123'' \<mapsto> ''/data/v1.2'']"

definition scan2_lookup_synced :: "string \<Rightarrow> string option" where
  "scan2_lookup_synced = [''image_123'' \<mapsto> ''/data/scan2'']"

definition scan_world :: world where
  "scan_world = \<lparr>files = [''/data/scan'' \<mapsto> ''dummy image data''], calls = [], log = []\<rparr>"

definition scan_world_renamed :: world where
  "scan_world_renamed =
     \<lparr>files = [''/data/v1.2'' \<mapsto> ''dummy image data''],
      calls = [SysOpen ''/data/v1.2'', SysClose, SysRename ''/data/scan'' ''/data/v1.2''],
      log = []\<rparr>"


section \<open>Strings: the code's tests and the specification's words\<close>

lemma invalid_chars_spec: "invalid_chars = set spec_invalid_characters"
  by (auto simp: invalid_chars_def spec_invalid_characters_def)

lemma endswith_char: "str_endswith s [c] \<longleftrightarrow> s \<noteq> [] \<and> last s = c"
proof (cases s rule: rev_cases)
  case Nil
  then show ?thesis by (simp add: str_endswith_def)
next
  case (snoc ys y)
  then show ?thesis by (auto simp: str_endswith_def)
qed

lemma hd_split_1: "hd (str_split_1 s c) = takeWhile (\<lambda>x. x \<noteq> c) s"
  by (auto simp: str_split_1_def intro!: takeWhile_eq_all_conv[THEN iffD2, symmetric])

lemma upper_lower_char: "upper_char (lower_char c) = upper_char c"
  by (simp add: upper_char_def lower_char_def Let_def)

lemma lower_upper_char: "lower_char (upper_char c) = lower_char c"
proof (cases "97 \<le> (of_char c :: nat) \<and> (of_char c :: nat) \<le> 122")
  case True
  then have a: "(of_char c - 32 :: nat) mod 256 = of_char c - 32"
    and b: "(of_char c - 32 + 32 :: nat) = of_char c"
    and c: "65 \<le> (of_char c - 32 :: nat)" "(of_char c - 32 :: nat) \<le> 90"
    and d: "\<not> (of_char c :: nat) \<le> 90"
    by auto
  show ?thesis
    using True by (simp add: upper_char_def lower_char_def Let_def a b c d)
next
  case False
  then show ?thesis by (auto simp: upper_char_def Let_def)
qed

lemma reserved_device_names_spec: "reserved_device_names = set spec_reserved_names"
  unfolding reserved_device_names_def spec_reserved_names_def str_of_digit_def
  by code_simp

lemma upper_reserved: "r \<in> set spec_reserved_names \<Longrightarrow> str_upper r = r"
  unfolding spec_reserved_names_def str_upper_def
  by (auto; code_simp)

lemma reserved_iff: "str_upper s \<in> reserved_device_names \<longleftrightarrow> is_reserved_stem s"
proof
  assume "str_upper s \<in> reserved_device_names"
  moreover have "equal_ignoring_case s (str_upper s)"
    by (simp add: equal_ignoring_case_def str_upper_def lower_upper_char)
  ultimately show "is_reserved_stem s"
    unfolding is_reserved_stem_def list_ex_iff reserved_device_names_spec by blast
next
  assume "is_reserved_stem s"
  then obtain r where r: "r \<in> set spec_reserved_names"
    and eq: "map lower_char s = map lower_char r"
    unfolding is_reserved_stem_def list_ex_iff equal_ignoring_case_def by blast
  have "map upper_char (map lower_char s) = map upper_char (map lower_char r)"
    using eq by simp
  then have "str_upper s = str_upper r"
    by (simp add: str_upper_def upper_lower_char comp_def)
  with r show "str_upper s \<in> reserved_device_names"
    by (simp add: upper_reserved reserved_device_names_spec)
qed

lemma reserved_nonempty: "is_reserved_stem s \<Longrightarrow> s \<noteq> []"
  unfolding is_reserved_stem_def list_ex_iff equal_ignoring_case_def spec_reserved_names_def
  by auto


section \<open>The endpoint, stage by stage\<close>

lemma rename_image_validation:
  "rename_image lk env r w =
     (case first_failure r of
        Some msg \<Rightarrow> (Inl (validation_error msg), w)
      | None \<Rightarrow>
          lookup_and_rename lk env (str_strip (req_image_id r)) (str_strip (req_rename r)) w)"
  unfolding rename_image_def first_failure_def validation_rules_def Let_def
  by (auto simp: rule_id_nonempty_def rule_name_nonempty_def rule_no_invalid_character_def
        rule_not_all_dots_def rule_no_trailing_dot_or_space_def rule_not_reserved_def
        invalid_chars_spec endswith_char hd_split_1 reserved_iff stem_before_first_dot_def
        dest: reserved_nonempty)

lemma rename_image_valid:
  assumes "first_failure r = None" and "lk (str_strip (req_image_id r)) = Some p" and "p \<noteq> []"
  shows "rename_image lk env r w = rename_on_disk env p (str_strip (req_rename r)) w"
  using assms by (simp add: rename_image_validation lookup_and_rename_def)

lemma rename_image_Inr:
  assumes "rename_image lk env r w = (Inr resp, w')"
  shows "first_failure r = None \<and>
         (\<exists>p. lk (str_strip (req_image_id r)) = Some p \<and> p \<noteq> [] \<and>
              rename_on_disk env p (str_strip (req_rename r)) w = (Inr resp, w'))"
  using assms
  by (auto simp: rename_image_validation lookup_and_rename_def
      split: option.splits if_splits)


lemmas disk_defs =
  rename_on_disk_def reserve_and_rename_def reserve_placeholder_def cleanup_placeholder_def
  os_open_excl_def os_close_def os_rename_def os_unlink_def traced_def logger_error_def
  on_file_exists_def is_FileExistsError_def Let_def

lemmas disk_splits = option.splits if_splits sum.splits exn.splits prod.splits

lemma rename_on_disk_exists:
  "files w (new_file_path_of p n) \<noteq> None \<Longrightarrow>
   rename_on_disk env p n w =
     (Inl file_exists_error, w\<lparr>calls := calls w @ [SysOpen (new_file_path_of p n)]\<rparr>)"
  by (auto simp: disk_defs)

lemma rename_on_disk_success:
  assumes "rename_on_disk env p n w = (Inr resp, w')"
  shows "resp = RenameImageResponse True (success_message n (snd (path_splitext p)))"
    and "calls w' =
           calls w @ [SysOpen (new_file_path_of p n), SysClose,
                      SysRename p (new_file_path_of p n)]"
    and "log w' = log w"
    and "files w (new_file_path_of p n) = None"
    and "files w' (new_file_path_of p n) \<noteq> None"
    and "new_file_path_of p n \<noteq> p \<Longrightarrow>
           files w' p = None \<and> files w' (new_file_path_of p n) = files w p"
    and "\<And>f. f \<noteq> p \<Longrightarrow> f \<noteq> new_file_path_of p n \<Longrightarrow> files w' f = files w f"
  using assms
  by (auto simp: disk_defs split: disk_splits)


lemma rename_on_disk_rename_fails:
  assumes "reserve_placeholder env (new_file_path_of p n) w = (Inr (), True, w1)"
    and "os_rename env p (new_file_path_of p n) w1 = (Inl e, w2)"
  shows "fst (rename_on_disk env p n w) = Inl (internal_error (exc_str env e))"
    and "calls (snd (rename_on_disk env p n w)) =
           calls w @ [SysOpen (new_file_path_of p n), SysClose,
                      SysRename p (new_file_path_of p n), SysUnlink (new_file_path_of p n)]"
    and "unlink_fault env = None \<Longrightarrow>
           files (snd (rename_on_disk env p n w)) = files w \<and>
           log (snd (rename_on_disk env p n w)) =
             log w @ [''Error renaming image: '' @ exc_str env e]"
    and "unlink_fault env = Some k \<Longrightarrow>
           files (snd (rename_on_disk env p n w)) = (files w)(new_file_path_of p n \<mapsto> []) \<and>
           log (snd (rename_on_disk env p n w)) =
             log w @ [cleanup_log_line (new_file_path_of p n)
                        (exc_str env (OSError k (new_file_path_of p n))),
                      ''Error renaming image: '' @ exc_str env e]"
  using assms
  by (auto simp: disk_defs split: disk_splits)

lemma lookup_and_rename_not_validation:
  "lookup_and_rename lk env i n w = (Inl h, w') \<Longrightarrow> \<not> is_validation_error h"
  by (auto simp: lookup_and_rename_def disk_defs is_validation_error_def not_found_error_def
        file_exists_error_def internal_error_def split: disk_splits)

lemma first_failure_messages:
  "first_failure r = Some msg \<Longrightarrow> rule_not_reserved r \<Longrightarrow>
   msg \<in> {msg_empty_id, msg_empty_name, msg_invalid_chars, msg_only_dots, msg_trailing}"
  by (auto simp: first_failure_def validation_rules_def split: if_splits)

lemma msg_reserved_distinct:
  "msg_reserved \<notin> {msg_empty_id, msg_empty_name, msg_invalid_chars, msg_only_dots, msg_trailing}"
  by (simp add: msg_reserved_def msg_empty_id_def msg_empty_name_def msg_invalid_chars_def
      msg_only_dots_def msg_trailing_def)


section \<open>The sample request, evaluated\<close>

lemma first_failure_blank_id:
  "first_failure (RenameImageRequest blank ''bad*name.'') = Some msg_empty_id"
  by code_simp

lemma first_failure_blank_name:
  "first_failure (RenameImageRequest padded_id blank) = Some msg_empty_name"
  by code_simp

lemma strip_blank: "str_strip blank = []"
  by code_simp

lemma first_failure_new_name:
  "first_failure (RenameImageRequest ''image_123'' ''new_name'') = None"
  by code_simp

lemma first_failure_dot_CON:
  "first_failure (RenameImageRequest ''image_123'' ''.CON'') = None"
  by code_simp

lemma strip_image_123: "str_strip ''image_123'' = ''image_123''"
  by code_simp

lemma strip_new_name: "str_strip ''new_name'' = ''new_name''"
  by code_simp

lemma strip_padded_id: "str_strip padded_id = ''image_123''"
  by code_simp

lemma strip_padded_name: "str_strip padded_name = ''new_name''"
  by code_simp

lemma first_failure_padded: "first_failure (RenameImageRequest padded_id padded_name) = None"
  by code_simp

lemma new_file_path_example:
  "new_file_path_of ''/data/old_name.jpg'' ''new_name'' = ''/data/new_name.jpg''"
  by code_simp

lemma splitext_example: "snd (path_splitext ''/data/old_name.jpg'') = ''.jpg''"
  by code_simp


section \<open>Validation\<close>

text \<open>
  Claim C4 (validation order, first failing rule wins). The six rules are tried in the order
  empty trimmed id, empty trimmed name, invalid character, only dots, trailing dot or space
  on the untrimmed name, reserved device name. The first rule that fails alone decides the
  answer: status 400, error kind \<^verbatim>\<open>Validation Error\<close>, the message of that rule, whatever the
  lookup and the disk are, and the world is left as it was (no call to the file system, no
  log line). Only a request that passes all six rules reaches the lookup.
\<close>

theorem validation_first_failure_wins:
  "(case first_failure r of
      Some msg \<Rightarrow>
        rename_image lk env r w =
          (Inl (HTTPException 400 (ErrorResponse False ''Validation Error'' msg)), w)
    | None \<Rightarrow>
        rename_image lk env r w =
          lookup_and_rename lk env (str_strip (req_image_id r)) (str_strip (req_rename r)) w)"
  by (simp add: rename_image_validation validation_error_def split: option.splits)

theorem validation_first_failure_wins_witness:
  "first_failure (RenameImageRequest blank ''bad*name.'') = Some ''Image ID cannot be empty'' \<and>
   rename_image example_lookup no_faults (RenameImageRequest blank ''bad*name.'') example_world =
     (Inl (HTTPException 400 (ErrorResponse False ''Validation Error'' ''Image ID cannot be empty'')),
      example_world) \<and>
   first_failure (RenameImageRequest padded_id blank) = Some ''New image name cannot be empty'' \<and>
   rename_image example_lookup no_faults (RenameImageRequest padded_id blank) example_world =
     (Inl (HTTPException 400 (ErrorResponse False ''Validation Error''
             ''New image name cannot be empty'')), example_world) \<and>
   first_failure (RenameImageRequest padded_id padded_name) = None \<and>
   rename_image example_lookup no_faults (RenameImageRequest padded_id padded_name) example_world =
     lookup_and_rename example_lookup no_faults ''image_123'' ''new_name'' example_world"
  using validation_first_failure_wins
    [where r = "RenameImageRequest blank ''bad*name.''" and lk = example_lookup
       and env = no_faults and w = example_world]
    validation_first_failure_wins
    [where r = "RenameImageRequest padded_id blank" and lk = example_lookup
       and env = no_faults and w = example_world]
    validation_first_failure_wins
    [where r = "RenameImageRequest padded_id padded_name" and lk = example_lookup
       and env = no_faults and w = example_world]
  by (simp add: first_failure_blank_id first_failure_blank_name first_failure_padded
      strip_padded_id strip_padded_name msg_empty_id_def msg_empty_name_def)

text \<open>
  Claim C7 (invalid characters). When the trimmed new name holds one of the characters
  \<^verbatim>\<open>< > : " / \ | ? * ! ^\<close>, the request is answered with status 400 and the error kind
  \<^verbatim>\<open>Validation Error\<close>, and the world is left as it was. The message is that of the
  character rule, unless the trimmed image id is empty, which is reported first.
\<close>

theorem invalid_character_rejected:
  assumes "c \<in> set (str_strip (req_rename r))" and "c \<in> set spec_invalid_characters"
  shows "rename_image lk env r w =
           (Inl (HTTPException 400 (ErrorResponse False ''Validation Error''
                   (if str_strip (req_image_id r) = [] then ''Image ID cannot be empty''
                    else ''New image name contains invalid characters.''))), w)"
proof -
  from assms have "first_failure r =
      Some (if str_strip (req_image_id r) = [] then msg_empty_id else msg_invalid_chars)"
    by (auto simp: first_failure_def validation_rules_def rule_id_nonempty_def
        rule_name_nonempty_def rule_no_invalid_character_def list_ex_iff)
  then show ?thesis
    by (simp add: rename_image_validation validation_error_def msg_empty_id_def
        msg_invalid_chars_def)
qed

theorem invalid_character_rejected_witness:
  "CHR ''*'' \<in> set (str_strip ''bad*name'') \<and> CHR ''*'' \<in> set spec_invalid_characters \<and>
   rename_image example_lookup no_faults (RenameImageRequest padded_id ''bad*name'')
     example_world =
     (Inl (HTTPException 400 (ErrorResponse False ''Validation Error''
             ''New image name contains invalid characters.'')), example_world) \<and>
   rename_image example_lookup no_faults (RenameImageRequest blank ''bad*name'')
     example_world =
     (Inl (HTTPException 400 (ErrorResponse False ''Validation Error''
             ''Image ID cannot be empty'')), example_world)"
proof -
  have a: "CHR ''*'' \<in> set (str_strip (req_rename (RenameImageRequest i ''bad*name'')))" for i
    by (simp, code_simp)
  have b: "CHR ''*'' \<in> set spec_invalid_characters"
    by code_simp
  from invalid_character_rejected
      [where r = "RenameImageRequest padded_id ''bad*name''" and c = "CHR ''*''"
         and lk = example_lookup and env = no_faults and w = example_world, OF a b]
    invalid_character_rejected
      [where r = "RenameImageRequest blank ''bad*name''" and c = "CHR ''*''"
         and lk = example_lookup and env = no_faults and w = example_world, OF a b]
    a[of padded_id] b
  show ?thesis by (simp add: strip_padded_id strip_blank)
qed

text \<open>
  Claim C8 (reserved device names). When the part of the trimmed new name before its first
  dot equals, letter case ignored, one of \<^verbatim>\<open>CON\<close>, \<^verbatim>\<open>PRN\<close>, \<^verbatim>\<open>NUL\<close>, \<^verbatim>\<open>AUX\<close>, \<^verbatim>\<open>COM1\<close> to
  \<^verbatim>\<open>COM9\<close>, \<^verbatim>\<open>LPT1\<close> to \<^verbatim>\<open>LPT9\<close>, the request is answered with status 400 and the error kind
  \<^verbatim>\<open>Validation Error\<close>, and the world is left as it was. When the id, character and
  trailing rules pass, the message is the one of the reserved-name rule.
\<close>

theorem reserved_device_name_rejected:
  assumes "is_reserved_stem (stem_before_first_dot (str_strip (req_rename r)))"
  shows "(\<exists>msg. rename_image lk env r w =
            (Inl (HTTPException 400 (ErrorResponse False ''Validation Error'' msg)), w))
         \<and> (rule_id_nonempty r \<and> rule_no_invalid_character r \<and> rule_no_trailing_dot_or_space r
              \<longrightarrow> rename_image lk env r w =
                    (Inl (HTTPException 400 (ErrorResponse False ''Validation Error''
                            msg_reserved)), w))"
proof -
  let ?n = "str_strip (req_rename r)"
  from assms have stem: "stem_before_first_dot ?n \<noteq> []"
    by (rule reserved_nonempty)
  then obtain x xs where n: "?n = x # xs" and x: "x \<noteq> CHR ''.''"
    by (cases ?n) (auto simp: stem_before_first_dot_def split: if_splits)
  have r2: "rule_name_nonempty r" and r4: "rule_not_all_dots r"
    using n x by (simp_all add: rule_name_nonempty_def rule_not_all_dots_def)
  have r6: "\<not> rule_not_reserved r"
    using assms by (simp add: rule_not_reserved_def)
  have "first_failure r \<noteq> None"
    using r6 by (auto simp: first_failure_def validation_rules_def)
  moreover have "rule_id_nonempty r \<and> rule_no_invalid_character r \<and>
      rule_no_trailing_dot_or_space r \<longrightarrow> first_failure r = Some msg_reserved"
    using r2 r4 r6 by (simp add: first_failure_def validation_rules_def)
  ultimately show ?thesis
    by (auto simp: rename_image_validation validation_error_def)
qed

theorem reserved_device_name_rejected_witness:
  "is_reserved_stem (stem_before_first_dot (str_strip ([CHR 0xC2, CHR 0xA0] @ ''con.txt''))) \<and>
   rename_image example_lookup no_faults
     (RenameImageRequest padded_id ([CHR 0xC2, CHR 0xA0] @ ''con.txt'')) example_world =
     (Inl (HTTPException 400 (ErrorResponse False ''Validation Error'' msg_reserved)),
      example_world)"
proof -
  let ?r = "RenameImageRequest padded_id ([CHR 0xC2, CHR 0xA0] @ ''con.txt'')"
  have a: "is_reserved_stem (stem_before_first_dot (str_strip (req_rename ?r)))"
    by code_simp
  have b: "rule_id_nonempty ?r \<and> rule_no_invalid_character ?r \<and> rule_no_trailing_dot_or_space ?r"
    by code_simp
  from reserved_device_name_rejected[OF a, of example_lookup no_faults example_world] a b
  show ?thesis by simp
qed

text \<open>
  Claim C10 (a leading dot escapes the reserved-name check). When the trimmed new name
  starts with a dot, the stem the code takes before the first dot is empty, the guard
  \<^verbatim>\<open>if base_stem and ...\<close> skips it, and the request is never answered with the error of the
  reserved-name rule. The name \<^verbatim>\<open>.CON\<close>, with the image id \<^verbatim>\<open>image_123\<close>, passes all six rules
  and reaches the lookup.
\<close>

theorem leading_dot_skips_reserved_check:
  "(\<forall>rest. str_strip (req_rename r) = CHR ''.'' # rest \<longrightarrow>
      hd (str_split_1 (str_strip (req_rename r)) (CHR ''.'')) = [] \<and>
      fst (rename_image lk env r w) \<noteq> Inl (validation_error msg_reserved))
   \<and> first_failure (RenameImageRequest ''image_123'' ''.CON'') = None
   \<and> rename_image lk env (RenameImageRequest ''image_123'' ''.CON'') w =
       lookup_and_rename lk env ''image_123'' ''.CON'' w"
proof (intro conjI allI impI)
  fix rest assume n: "str_strip (req_rename r) = CHR ''.'' # rest"
  show "hd (str_split_1 (str_strip (req_rename r)) (CHR ''.'')) = []"
    by (simp add: n hd_split_1)
  have ok: "rule_not_reserved r"
    using reserved_nonempty[of "[]"]
    by (auto simp: rule_not_reserved_def n stem_before_first_dot_def)
  show "fst (rename_image lk env r w) \<noteq> Inl (validation_error msg_reserved)"
  proof (cases "first_failure r")
    case None
    have "\<not> is_validation_error h"
      if "lookup_and_rename lk env (str_strip (req_image_id r)) (str_strip (req_rename r)) w
            = (Inl h, w')" for h w'
      using that by (rule lookup_and_rename_not_validation)
    moreover have "is_validation_error (validation_error msg_reserved)"
      by (simp add: is_validation_error_def validation_error_def)
    ultimately show ?thesis
      using None by (cases "lookup_and_rename lk env (str_strip (req_image_id r))
          (str_strip (req_rename r)) w") (auto simp: rename_image_validation)
  next
    case (Some msg)
    with ok have "msg \<noteq> msg_reserved"
      using first_failure_messages[of r msg] msg_reserved_distinct by auto
    with Some show ?thesis
      by (simp add: rename_image_validation validation_error_def)
  qed
next
  show "first_failure (RenameImageRequest ''image_123'' ''.CON'') = None"
    by (rule first_failure_dot_CON)
next
  show "rename_image lk env (RenameImageRequest ''image_123'' ''.CON'') w =
       lookup_and_rename lk env ''image_123'' ''.CON'' w"
  proof -
    have "str_strip ''.CON'' = ''.CON''" by code_simp
    then show ?thesis
      by (simp add: rename_image_validation first_failure_dot_CON strip_image_123)
  qed
qed

theorem leading_dot_skips_reserved_check_witness:
  "str_strip ''.CON'' = CHR ''.'' # ''CON'' \<and>
   hd (str_split_1 (str_strip ''.CON'') (CHR ''.'')) = [] \<and>
   fst (rename_image example_lookup no_faults (RenameImageRequest ''image_123'' ''.CON'')
     example_world) \<noteq> Inl (validation_error msg_reserved)"
proof -
  have a: "str_strip (req_rename (RenameImageRequest ''image_123'' ''.CON'')) = CHR ''.'' # ''CON''"
    by code_simp
  from leading_dot_skips_reserved_check
    [where r = "RenameImageRequest ''image_123'' ''.CON''" and lk = example_lookup
       and env = no_faults and w = example_world, THEN conjunct1, rule_format, OF a] a
  show ?thesis by simp
qed


section \<open>Lookup\<close>

text \<open>
  Claim C6 (unknown image). When the request passes all six rules and the lookup has no
  path for the trimmed image id, the answer is status 404 with the error kind
  \<^verbatim>\<open>Image Not Found\<close>, and the world is left as it was: no call to the file system is made.
\<close>

theorem not_found_without_filesystem_call:
  assumes "first_failure r = None" and "lk (str_strip (req_image_id r)) = None"
  shows "rename_image lk env r w =
           (Inl (HTTPException 404 (ErrorResponse False ''Image Not Found''
                   (''Image with ID '' @ [CHR 0x27] @ str_strip (req_image_id r) @ [CHR 0x27]
                    @ '' does not exist.''))), w)
         \<and> calls (snd (rename_image lk env r w)) = calls w"
  using assms by (simp add: rename_image_validation lookup_and_rename_def not_found_error_def)

theorem not_found_without_filesystem_call_witness:
  "first_failure (RenameImageRequest padded_id padded_name) = None \<and>
   rename_image (\<lambda>i. None) no_faults (RenameImageRequest padded_id padded_name)
     example_world =
     (Inl (HTTPException 404 (ErrorResponse False ''Image Not Found''
             ''Image with ID 'image_123' does not exist.'')), example_world)"
  using not_found_without_filesystem_call
    [where r = "RenameImageRequest padded_id padded_name" and lk = "\<lambda>i. None"
       and env = no_faults and w = example_world]
  by (simp add: first_failure_padded strip_padded_id)

lemma example_lookup_image_123: "example_lookup ''image_123'' = Some ''/data/old_name.jpg''"
  by (simp add: example_lookup_def)

lemma rename_image_example:
  "rename_image example_lookup env (RenameImageRequest ''image_123'' ''new_name'') w =
     rename_on_disk env ''/data/old_name.jpg'' ''new_name'' w"
  using rename_image_valid[OF first_failure_new_name, of example_lookup "''/data/old_name.jpg''" env w]
  by (simp add: strip_image_123 strip_new_name example_lookup_image_123)


lemma rename_image_padded:
  "rename_image example_lookup env (RenameImageRequest padded_id padded_name) w =
     rename_on_disk env ''/data/old_name.jpg'' ''new_name'' w"
  using rename_image_valid[OF first_failure_padded, of example_lookup "''/data/old_name.jpg''" env w]
  by (simp add: strip_padded_id strip_padded_name example_lookup_image_123)

lemmas example_defs =
  example_world_def example_world_taken_def no_faults_def rename_fails_def cleanup_fails_def
  EIO_def EBUSY_def EEXIST_def ENOENT_def

lemma run_example_ok:
  "rename_on_disk no_faults ''/data/old_name.jpg'' ''new_name'' example_world =
     (Inr (RenameImageResponse True (''Successfully renamed image to 'new_name.jpg'' @ [CHR 0x27])),
      \<lparr>files = [''/data/new_name.jpg'' \<mapsto> ''dummy image data''],
       calls = [SysOpen ''/data/new_name.jpg'', SysClose,
                SysRename ''/data/old_name.jpg'' ''/data/new_name.jpg''],
       log = []\<rparr>)"
  by (simp add: disk_defs new_file_path_example splitext_example example_defs success_message_def
      fun_eq_iff)




section \<open>The reservation and the rename\<close>

text \<open>
  Claim C2 (collision). When the request passes validation and lookup and a file exists at
  the target path, the create-exclusive call fails, the answer is status 400 with the error
  kind \<^verbatim>\<open>File Exists\<close>, and nothing has changed on the disk: the files are those before the
  call, the original among them, the failed \<^verbatim>\<open>os.open\<close> is the only call made, and nothing
  is logged.
\<close>
theorem collision_file_exists:
  assumes "first_failure r = None"
    and "lk (str_strip (req_image_id r)) = Some p" and "p \<noteq> []"
    and "files w (new_file_path_of p (str_strip (req_rename r))) \<noteq> None"
  shows "fst (rename_image lk env r w) =
           Inl (HTTPException 400 (ErrorResponse False ''File Exists''
                  ''A file with the new name already exists.''))
         \<and> files (snd (rename_image lk env r w)) = files w
         \<and> calls (snd (rename_image lk env r w)) =
             calls w @ [SysOpen (new_file_path_of p (str_strip (req_rename r)))]
         \<and> log (snd (rename_image lk env r w)) = log w"
  using assms
  by (simp add: rename_image_valid rename_on_disk_exists file_exists_error_def)

theorem collision_file_exists_witness:
  "files example_world_taken ''/data/new_name.jpg'' \<noteq> None \<and>
   fst (rename_image example_lookup no_faults (RenameImageRequest padded_id padded_name)
         example_world_taken) =
     Inl (HTTPException 400 (ErrorResponse False ''File Exists''
            ''A file with the new name already exists.'')) \<and>
   files (snd (rename_image example_lookup no_faults
         (RenameImageRequest padded_id padded_name) example_world_taken))
     = files example_world_taken"
proof -
  let ?r = "RenameImageRequest padded_id padded_name"
  have a: "example_lookup (str_strip (req_image_id ?r)) = Some ''/data/old_name.jpg''"
    by (simp add: strip_padded_id strip_padded_name example_lookup_image_123)
  have b: "''/data/old_name.jpg'' \<noteq> []" by simp
  have c: "files example_world_taken
             (new_file_path_of ''/data/old_name.jpg'' (str_strip (req_rename ?r))) \<noteq> None"
    by (simp add: strip_padded_id strip_padded_name new_file_path_example example_world_taken_def)
  from collision_file_exists
    [where lk = example_lookup and r = ?r and p = "''/data/old_name.jpg''"
       and w = example_world_taken and env = no_faults, OF first_failure_padded a b c] c
  show ?thesis by (simp add: strip_padded_id strip_padded_name new_file_path_example)
qed

text \<open>
  Claim C3 (cleanup when the rename fails). When the placeholder was created
  (\<^verbatim>\<open>placeholder_created\<close> is set) and \<^verbatim>\<open>os.rename\<close> then raises \<^verbatim>\<open>e\<close>, the endpoint calls
  \<^verbatim>\<open>os.unlink\<close> on the target and answers with status 500, error kind
  \<^verbatim>\<open>Internal server error\<close>, and the text of \<^verbatim>\<open>e\<close> in the message. When the deletion
  succeeds the files are those before the call. When the deletion fails, that failure is
  logged, the placeholder stays, and the answer is the same.
\<close>
theorem cleanup_on_rename_failure:
  assumes "first_failure r = None"
    and "lk (str_strip (req_image_id r)) = Some p" and "p \<noteq> []"
    and "t = new_file_path_of p (str_strip (req_rename r))"
    and "reserve_placeholder env t w = (Inr (), True, w1)"
    and "os_rename env p t w1 = (Inl e, w2)"
    and "rename_image lk env r w = (res, w')"
  shows "res = Inl (HTTPException 500 (ErrorResponse False ''Internal server error''
                  (''Unable to rename image: '' @ exc_str env e)))
         \<and> calls w' = calls w @ [SysOpen t, SysClose, SysRename p t, SysUnlink t]
         \<and> (unlink_fault env = None \<longrightarrow>
               files w' = files w \<and>
               log w' = log w @ [''Error renaming image: '' @ exc_str env e])
         \<and> (\<forall>k. unlink_fault env = Some k \<longrightarrow>
               files w' = (files w)(t \<mapsto> []) \<and>
               log w' = log w @ [''Failed to clean up placeholder file '' @ [CHR 0x27] @ t
                                  @ [CHR 0x27] @ '': '' @ exc_str env (OSError k t),
                                 ''Error renaming image: '' @ exc_str env e])"
proof -
  let ?n = "str_strip (req_rename r)"
  have eq: "rename_on_disk env p ?n w = (res, w')"
    using assms(1,2,3,7) by (simp add: rename_image_valid)
  have r: "reserve_placeholder env (new_file_path_of p ?n) w = (Inr (), True, w1)"
    and f: "os_rename env p (new_file_path_of p ?n) w1 = (Inl e, w2)"
    using assms(4,5,6) by simp_all
  note th = rename_on_disk_rename_fails[OF r f]
  show ?thesis
    using th(1) th(2) th(3) th(4) eq assms(4)
    by (simp add: internal_error_def cleanup_log_line_def)
qed

theorem cleanup_on_rename_failure_witness:
  "fst (rename_image example_lookup rename_fails (RenameImageRequest padded_id padded_name)
         example_world) =
     Inl (HTTPException 500 (ErrorResponse False ''Internal server error''
            (''Unable to rename image: '' @ exc_str rename_fails (OSError EIO ''/data/old_name.jpg''))))
   \<and> calls (snd (rename_image example_lookup rename_fails
         (RenameImageRequest padded_id padded_name) example_world)) =
       [SysOpen ''/data/new_name.jpg'', SysClose,
        SysRename ''/data/old_name.jpg'' ''/data/new_name.jpg'', SysUnlink ''/data/new_name.jpg'']
   \<and> files (snd (rename_image example_lookup rename_fails
         (RenameImageRequest padded_id padded_name) example_world)) = files example_world"
proof -
  let ?r = "RenameImageRequest padded_id padded_name"
  let ?p = "''/data/old_name.jpg''"
  let ?t = "''/data/new_name.jpg''"
  let ?w1 = "snd (snd (reserve_placeholder rename_fails ?t example_world))"
  let ?w2 = "snd (os_rename rename_fails ?p ?t ?w1)"
  let ?run = "rename_image example_lookup rename_fails ?r example_world"
  have a: "example_lookup (str_strip (req_image_id ?r)) = Some ?p"
    by (simp add: strip_padded_id example_lookup_image_123)
  have b: "?p \<noteq> []" by simp
  have c: "?t = new_file_path_of ?p (str_strip (req_rename ?r))"
    by (simp add: strip_padded_name new_file_path_example)
  have d: "reserve_placeholder rename_fails ?t example_world = (Inr (), True, ?w1)"
    by (simp add: reserve_placeholder_def os_open_excl_def os_close_def traced_def Let_def
        example_defs)
  have e: "os_rename rename_fails ?p ?t ?w1 = (Inl (OSError EIO ?p), ?w2)"
    by (simp add: os_rename_def Let_def example_defs)
  have f: "?run = (fst ?run, snd ?run)" by simp
  have g: "unlink_fault rename_fails = None"
    by (simp add: example_defs)
  from cleanup_on_rename_failure
    [where lk = example_lookup and env = rename_fails and r = ?r and w = example_world
       and p = ?p and t = ?t, OF first_failure_padded a b c d e f] g
  show ?thesis by (simp add: example_world_def)
qed


text \<open>
  Claim C5 (target path and answer of a successful rename). When the endpoint answers with
  success, the lookup gave a path, the file was renamed to the directory of that path joined
  with the trimmed new name followed by the extension of that path, and the message is
  \<^verbatim>\<open>Successfully renamed image to '<name><ext>'\<close>. For the id resolving to
  \<^verbatim>\<open>/data/old_name.jpg\<close> and the new name \<^verbatim>\<open>new_name\<close> the file ends up at
  \<^verbatim>\<open>/data/new_name.jpg\<close> and the message names \<^verbatim>\<open>new_name.jpg\<close>.
\<close>
theorem new_path_and_success_message:
  "(\<forall>resp w'. rename_image lk env r w = (Inr resp, w') \<longrightarrow>
      (\<exists>image_path. lk (str_strip (req_image_id r)) = Some image_path \<and>
         (let new_name = str_strip (req_rename r);
              extension = snd (path_splitext image_path);
              new_file_path = path_join (path_dirname image_path) (new_name @ extension)
          in resp = RenameImageResponse True
                      (''Successfully renamed image to '' @ [CHR 0x27] @ new_name @ extension
                       @ [CHR 0x27])
             \<and> calls w' = calls w @ [SysOpen new_file_path, SysClose,
                                     SysRename image_path new_file_path]
             \<and> files w' new_file_path \<noteq> None)))
   \<and> fst (rename_image example_lookup no_faults (RenameImageRequest ''image_123'' ''new_name'')
           example_world) =
       Inr (RenameImageResponse True
              (''Successfully renamed image to 'new_name.jpg'' @ [CHR 0x27]))
   \<and> calls (snd (rename_image example_lookup no_faults
           (RenameImageRequest ''image_123'' ''new_name'') example_world)) =
       [SysOpen ''/data/new_name.jpg'', SysClose,
        SysRename ''/data/old_name.jpg'' ''/data/new_name.jpg'']
   \<and> files (snd (rename_image example_lookup no_faults
           (RenameImageRequest ''image_123'' ''new_name'') example_world)) =
       [''/data/new_name.jpg'' \<mapsto> ''dummy image data'']
   \<and> fst (rename_image example_lookup no_faults (RenameImageRequest padded_id padded_name)
           example_world) =
       Inr (RenameImageResponse True
              (''Successfully renamed image to 'new_name.jpg'' @ [CHR 0x27]))
   \<and> calls (snd (rename_image example_lookup no_faults
           (RenameImageRequest padded_id padded_name) example_world)) =
       [SysOpen ''/data/new_name.jpg'', SysClose,
        SysRename ''/data/old_name.jpg'' ''/data/new_name.jpg'']"
proof (intro conjI allI impI)
  fix resp w' assume run: "rename_image lk env r w = (Inr resp, w')"
  from rename_image_Inr[OF run] obtain p where p: "lk (str_strip (req_image_id r)) = Some p"
    and disk: "rename_on_disk env p (str_strip (req_rename r)) w = (Inr resp, w')"
    by blast
  note s = rename_on_disk_success[OF disk]
  show "\<exists>image_path. lk (str_strip (req_image_id r)) = Some image_path \<and>
         (let new_name = str_strip (req_rename r);
              extension = snd (path_splitext image_path);
              new_file_path = path_join (path_dirname image_path) (new_name @ extension)
          in resp = RenameImageResponse True
                      (''Successfully renamed image to '' @ [CHR 0x27] @ new_name @ extension
                       @ [CHR 0x27])
             \<and> calls w' = calls w @ [SysOpen new_file_path, SysClose,
                                     SysRename image_path new_file_path]
             \<and> files w' new_file_path \<noteq> None)"
    using p s(1) s(2) s(5)
    by (simp add: Let_def new_file_path_of_def success_message_def)
qed (simp_all add: rename_image_example rename_image_padded run_example_ok)

theorem new_path_and_success_message_witness:
  "rename_image example_lookup no_faults (RenameImageRequest padded_id padded_name)
     example_world =
     (Inr (RenameImageResponse True (''Successfully renamed image to 'new_name.jpg'' @ [CHR 0x27])),
      snd (rename_image example_lookup no_faults (RenameImageRequest padded_id padded_name)
            example_world))
   \<and> str_strip padded_name = ''new_name''
   \<and> (\<exists>image_path. example_lookup (str_strip padded_id) = Some image_path \<and>
        path_join (path_dirname image_path) (''new_name'' @ snd (path_splitext image_path))
          = ''/data/new_name.jpg'' \<and>
        calls (snd (rename_image example_lookup no_faults
                 (RenameImageRequest padded_id padded_name) example_world)) =
          [SysOpen ''/data/new_name.jpg'', SysClose,
           SysRename image_path ''/data/new_name.jpg''])"
proof -
  let ?r = "RenameImageRequest padded_id padded_name"
  let ?run = "rename_image example_lookup no_faults ?r example_world"
  note th = new_path_and_success_message
    [where lk = example_lookup and env = no_faults and r = ?r and w = example_world]
  have a: "?run = (Inr (RenameImageResponse True
                     (''Successfully renamed image to 'new_name.jpg'' @ [CHR 0x27])), snd ?run)"
    using th[THEN conjunct2, THEN conjunct2, THEN conjunct2, THEN conjunct2, THEN conjunct1]
    by (simp add: prod_eq_iff)
  from th[THEN conjunct1, rule_format, OF a]
  obtain image_path where p: "example_lookup (str_strip (req_image_id ?r)) = Some image_path"
    and c: "calls (snd ?run) = calls example_world @
              [SysOpen (path_join (path_dirname image_path)
                          (str_strip (req_rename ?r) @ snd (path_splitext image_path))),
               SysClose,
               SysRename image_path (path_join (path_dirname image_path)
                          (str_strip (req_rename ?r) @ snd (path_splitext image_path)))]"
    by (auto simp: Let_def)
  from p have pe: "image_path = ''/data/old_name.jpg''"
    by (simp add: strip_padded_id example_lookup_image_123)
  have t: "path_join (path_dirname image_path) (''new_name'' @ snd (path_splitext image_path))
          = ''/data/new_name.jpg''"
    using new_file_path_example by (simp add: pe new_file_path_of_def Let_def)
  from c t have "calls (snd ?run) =
      [SysOpen ''/data/new_name.jpg'', SysClose, SysRename image_path ''/data/new_name.jpg'']"
    by (simp add: strip_padded_name example_world_def)
  with p t a show ?thesis
    by (auto simp: strip_padded_name)
qed







section \<open>Paths: the target of the target\<close>

lemma rfind_notin: "c \<notin> set s \<Longrightarrow> str_rfind s c = - 1"
  by (simp add: str_rfind_def)

lemma rfind_last: "c \<notin> set b \<Longrightarrow> str_rfind (a @ c # b) c = int (length a)"
proof -
  assume nb: "c \<notin> set b"
  have "takeWhile (\<lambda>x. x \<noteq> c) (rev b @ c # rev a) = takeWhile (\<lambda>x. x \<noteq> c) (rev b)"
    by (rule takeWhile_tail) simp
  also have "\<dots> = rev b"
    using nb by auto
  finally show ?thesis
    by (simp add: str_rfind_def)
qed

lemma dirname_nosep: "CHR ''/'' \<notin> set p \<Longrightarrow> path_dirname p = []"
  by (simp add: path_dirname_def rfind_notin)

lemma nat_int_Suc: "nat (int n + 1) = Suc n"
  by linarith

lemma head_split:
  "c \<notin> set b \<Longrightarrow> take (nat (str_rfind (a @ c # b) c + 1)) (a @ c # b) = a @ [c]"
  by (simp add: rfind_last nat_int_Suc)

lemma dirname_split:
  assumes "CHR ''/'' \<notin> set b"
  shows "path_dirname (a @ CHR ''/'' # b) =
     (if a @ ''/'' \<noteq> replicate (Suc (length a)) (CHR ''/'')
      then str_rstrip_char (a @ ''/'') (CHR ''/'') else a @ ''/'')"
  unfolding path_dirname_def Let_def head_split[OF assms]
  by simp

lemma rstrip_shape:
  assumes "h \<noteq> replicate (length h) c"
  shows "str_rstrip_char h c \<noteq> [] \<and> last (str_rstrip_char h c) \<noteq> c"
proof -
  have "\<exists>x\<in>set h. x \<noteq> c"
    using assms by (metis replicate_eqI)
  then have ne: "dropWhile (\<lambda>x. x = c) (rev h) \<noteq> []"
    by auto
  from hd_dropWhile[OF ne] have "hd (dropWhile (\<lambda>x. x = c) (rev h)) \<noteq> c" .
  with ne show ?thesis
    by (simp add: str_rstrip_char_def last_rev)
qed

text \<open>The three shapes of a directory name.\<close>

lemma dirname_shape:
  "path_dirname p = [] \<or>
   (path_dirname p \<noteq> [] \<and> path_dirname p = replicate (length (path_dirname p)) (CHR ''/'')) \<or>
   (path_dirname p \<noteq> [] \<and> last (path_dirname p) \<noteq> CHR ''/'')"
proof (cases "CHR ''/'' \<in> set p")
  case False
  then show ?thesis by (simp add: dirname_nosep)
next
  case True
  then obtain a b where p: "p = a @ CHR ''/'' # b" and b: "CHR ''/'' \<notin> set b"
    by (meson split_list_last)
  show ?thesis
  proof (cases "a @ ''/'' = replicate (Suc (length a)) (CHR ''/'')")
    case True
    then show ?thesis using b by (simp add: p dirname_split)
  next
    case False
    then have "a @ ''/'' \<noteq> replicate (length (a @ ''/'')) (CHR ''/'')" by simp
    from rstrip_shape[OF this] show ?thesis
      using False b by (simp add: p dirname_split)
  qed
qed

lemma startswith_sep: "str_startswith b ''/'' \<longleftrightarrow> b \<noteq> [] \<and> hd b = CHR ''/''"
  by (cases b) (auto simp: str_startswith_def)

lemma join_nosep:
  assumes "CHR ''/'' \<notin> set b"
  shows "path_join a b = (if a = [] \<or> last a = CHR ''/'' then a @ b else a @ ''/'' @ b)"
proof -
  have "\<not> str_startswith b ''/''"
    using assms by (cases b) (auto simp: startswith_sep)
  then show ?thesis
    by (auto simp: path_join_def endswith_char)
qed

text \<open>Joining a directory name with a slash-free name and taking the directory again.\<close>

lemma dirname_join:
  assumes b: "CHR ''/'' \<notin> set b"
  shows "path_dirname (path_join (path_dirname p) b) = path_dirname p"
proof -
  let ?D = "path_dirname p"
  from dirname_shape[of p] consider
    (empty) "?D = []"
    | (slashes) "?D \<noteq> []" "?D = replicate (length ?D) (CHR ''/'')"
    | (plain) "?D \<noteq> []" "last ?D \<noteq> CHR ''/''"
    by blast
  then show ?thesis
  proof cases
    case empty
    then show ?thesis using b by (simp add: join_nosep dirname_nosep)
  next
    case slashes
    then obtain k where k: "?D = replicate k (CHR ''/'') @ ''/''"
      by (metis length_0_conv not0_implies_Suc replicate_Suc replicate_append_same)
    have "path_join ?D b = replicate k (CHR ''/'') @ CHR ''/'' # b"
      using b by (simp add: join_nosep k)
    then have "path_dirname (path_join ?D b) = replicate k (CHR ''/'') @ ''/''"
      using b by (simp add: dirname_split replicate_append_same)
    then show ?thesis using k by simp
  next
    case plain
    then have j: "path_join ?D b = ?D @ CHR ''/'' # b"
      using b by (simp add: join_nosep)
    have ns: "?D @ ''/'' \<noteq> replicate (Suc (length ?D)) (CHR ''/'')"
    proof
      assume "?D @ ''/'' = replicate (Suc (length ?D)) (CHR ''/'')"
      then have "set ?D \<subseteq> {CHR ''/''}"
        by (metis Un_upper1 set_append set_replicate_conv_if subset_trans empty_subsetI order_refl)
      with plain show False
        by (metis last_in_set singletonD subsetD)
    qed
    have "str_rstrip_char (?D @ ''/'') (CHR ''/'') = ?D"
      using plain by (simp add: str_rstrip_char_def dropWhile_eq_self_iff[THEN iffD2] hd_rev)
    then show ?thesis
      using b ns by (simp add: j dirname_split)
  qed
qed

text \<open>The joined path is the name itself, or the name after a prefix that ends with a slash.\<close>

lemma join_dirname_prefix:
  assumes b: "CHR ''/'' \<notin> set b"
  shows "\<exists>X. path_join (path_dirname p) b = X @ b \<and> (X = [] \<or> last X = CHR ''/'')"
proof (cases "path_dirname p = [] \<or> last (path_dirname p) = CHR ''/''")
  case True
  then show ?thesis using b by (auto simp: join_nosep)
next
  case False
  then have "path_join (path_dirname p) b = (path_dirname p @ ''/'') @ b"
    using b by (simp add: join_nosep)
  then show ?thesis by (metis last_snoc)
qed

lemma rfind_ge:
  assumes "c \<in> set b"
  shows "str_rfind (a @ b) c \<ge> int (length a)"
proof -
  from assms obtain b1 b2 where b: "b = b1 @ c # b2" and "c \<notin> set b2"
    by (meson split_list_last)
  then have "str_rfind ((a @ b1) @ c # b2) c = int (length (a @ b1))"
    by (rule_tac rfind_last)
  then show ?thesis by (simp add: b)
qed

lemma rfind_lower: "str_rfind s c \<ge> - 1"
proof (cases "c \<in> set s")
  case True
  from rfind_ge[OF True, of "[]"] show ?thesis by simp
next
  case False
  then show ?thesis by (simp add: rfind_notin)
qed

text \<open>A non-empty extension is a dot followed by characters other than dot and slash.\<close>

lemma splitext_ext_shape:
  assumes "snd (path_splitext p) \<noteq> []"
  shows "\<exists>b. snd (path_splitext p) = CHR ''.'' # b \<and> CHR ''.'' \<notin> set b \<and> CHR ''/'' \<notin> set b"
proof -
  let ?sep = "str_rfind p (CHR ''/'')" and ?dot = "str_rfind p (CHR ''.'')"
  from assms have gt: "?dot > ?sep" and ext: "snd (path_splitext p) = drop (nat ?dot) p"
    by (auto simp: path_splitext_def Let_def split: if_splits)
  have "CHR ''.'' \<in> set p"
  proof (rule ccontr)
    assume "CHR ''.'' \<notin> set p"
    then have "?dot = - 1" by (rule rfind_notin)
    with gt rfind_lower[of p "CHR ''/''"] show False by simp
  qed
  then obtain a b where p: "p = a @ CHR ''.'' # b" and nb: "CHR ''.'' \<notin> set b"
    by (meson split_list_last)
  have dot: "?dot = int (length a)"
    using nb by (simp add: p rfind_last)
  have "CHR ''/'' \<notin> set b"
  proof
    assume "CHR ''/'' \<in> set b"
    from rfind_ge[OF this, of "a @ ''.''"] have "?sep \<ge> int (length a) + 1"
      by (simp add: p)
    with gt dot show False by simp
  qed
  with nb ext dot show ?thesis by (simp add: p)
qed

lemma splitext_after_prefix:
  assumes X: "X = [] \<or> last X = CHR ''/''"
    and n: "CHR ''/'' \<notin> set n" "\<not> list_all (\<lambda>c. c = CHR ''.'') n"
    and b: "CHR ''.'' \<notin> set b" "CHR ''/'' \<notin> set b"
  shows "snd (path_splitext (X @ n @ CHR ''.'' # b)) = CHR ''.'' # b"
proof -
  let ?q = "X @ n @ CHR ''.'' # b"
  have dot: "str_rfind ?q (CHR ''.'') = int (length X + length n)"
    using rfind_last[OF b(1), of "X @ n"] by simp
  have sep: "str_rfind ?q (CHR ''/'') = int (length X) - 1"
  proof (cases "X = []")
    case True
    then show ?thesis using n(1) b(2) by (simp add: rfind_notin)
  next
    case False
    with X obtain Y where Y: "X = Y @ ''/''"
      by (metis append_butlast_last_id)
    have "CHR ''/'' \<notin> set (n @ CHR ''.'' # b)"
      using n(1) b(2) by simp
    from rfind_last[OF this, of Y] show ?thesis by (simp add: Y)
  qed
  have slice: "take (nat (int (length X + length n) - (int (length X) - 1 + 1)))
                 (drop (nat (int (length X) - 1 + 1)) ?q) = n"
    by simp
  have ex: "list_ex (\<lambda>c. c \<noteq> CHR ''.'') n"
    using n(2) by (auto simp: list_all_iff list_ex_iff)
  show ?thesis
    unfolding path_splitext_def Let_def dot sep slice
    using ex by simp
qed

lemma new_file_path_nonempty: "n \<noteq> [] \<Longrightarrow> new_file_path_of p n \<noteq> []"
  by (auto simp: new_file_path_of_def path_join_def Let_def)

lemma valid_name:
  assumes "first_failure r = None"
  shows "str_strip (req_rename r) \<noteq> []"
    and "CHR ''/'' \<notin> set (str_strip (req_rename r))"
    and "\<not> list_all (\<lambda>c. c = CHR ''.'') (str_strip (req_rename r))"
  using assms
  by (auto simp: first_failure_def validation_rules_def rule_name_nonempty_def
      rule_no_invalid_character_def rule_not_all_dots_def spec_invalid_characters_def
      list_ex_iff split: if_splits)


lemma rfind_before:
  assumes "c \<in> set a" and "c \<notin> set b"
  shows "str_rfind (a @ b) c < int (length a)"
proof -
  from assms(1) obtain a1 a2 where a: "a = a1 @ c # a2" and "c \<notin> set a2"
    by (meson split_list_last)
  with assms(2) have "c \<notin> set (a2 @ b)" by simp
  from rfind_last[OF this, of a1] show ?thesis by (simp add: a)
qed

lemma ext_nosep: "CHR ''/'' \<notin> set (snd (path_splitext p))"
proof (cases "snd (path_splitext p) = []")
  case True
  then show ?thesis by simp
next
  case False
  from splitext_ext_shape[OF this] show ?thesis by auto
qed

text \<open>A name without a dot gets no extension from the directory it is joined to.\<close>

lemma splitext_no_dot:
  assumes X: "X = [] \<or> last X = CHR ''/''"
    and n: "CHR ''/'' \<notin> set n" "CHR ''.'' \<notin> set n"
  shows "snd (path_splitext (X @ n)) = []"
proof -
  have "\<not> str_rfind (X @ n) (CHR ''.'') > str_rfind (X @ n) (CHR ''/'')"
  proof (cases "CHR ''.'' \<in> set X")
    case False
    with n(2) have "str_rfind (X @ n) (CHR ''.'') = - 1"
      by (simp add: rfind_notin)
    with rfind_lower[of "X @ n" "CHR ''/''"] show ?thesis by simp
  next
    case True
    then have "X \<noteq> []" by auto
    with X obtain Y where Y: "X = Y @ ''/''"
      by (metis append_butlast_last_id)
    from rfind_last[OF n(1), of Y] have sep: "str_rfind (X @ n) (CHR ''/'') = int (length Y)"
      by (simp add: Y)
    from True have "CHR ''.'' \<in> set Y" by (simp add: Y)
    moreover have "CHR ''.'' \<notin> set (''/'' @ n)" using n(2) by simp
    ultimately have "str_rfind (Y @ ''/'' @ n) (CHR ''.'') < int (length Y)"
      by (rule rfind_before)
    with sep show ?thesis by (simp add: Y)
  qed
  then show ?thesis
    by (simp add: path_splitext_def Let_def)
qed

text \<open>When the target keeps the extension of the current path.\<close>

lemma new_file_path_keeps_ext:
  assumes n: "CHR ''/'' \<notin> set n" "\<not> list_all (\<lambda>c. c = CHR ''.'') n"
    and "snd (path_splitext p) \<noteq> [] \<or> CHR ''.'' \<notin> set n"
  shows "snd (path_splitext (new_file_path_of p n)) = snd (path_splitext p)"
proof (cases "snd (path_splitext p) = []")
  case False
  from splitext_ext_shape[OF False] obtain b where e: "snd (path_splitext p) = CHR ''.'' # b"
    and b: "CHR ''.'' \<notin> set b" "CHR ''/'' \<notin> set b"
    by blast
  have name: "CHR ''/'' \<notin> set (n @ CHR ''.'' # b)"
    using n(1) b(2) by simp
  from join_dirname_prefix[OF name, of p] obtain X
    where X: "path_join (path_dirname p) (n @ CHR ''.'' # b) = X @ n @ CHR ''.'' # b"
      "X = [] \<or> last X = CHR ''/''"
    by auto
  have "snd (path_splitext (X @ n @ CHR ''.'' # b)) = CHR ''.'' # b"
    by (rule splitext_after_prefix[OF X(2) n b])
  then show ?thesis
    by (simp add: new_file_path_of_def e X(1))
next
  case True
  with assms(3) have nd: "CHR ''.'' \<notin> set n" by simp
  from join_dirname_prefix[OF n(1), of p] obtain X
    where X: "path_join (path_dirname p) n = X @ n" "X = [] \<or> last X = CHR ''/''"
    by auto
  have "snd (path_splitext (X @ n)) = []"
    by (rule splitext_no_dot[OF X(2) n(1) nd])
  then show ?thesis
    by (simp add: new_file_path_of_def True X(1))
qed

text \<open>A target with the extension of the current path is its own target.\<close>

lemma new_file_path_fixed_ext:
  assumes n: "CHR ''/'' \<notin> set n"
    and same: "snd (path_splitext (new_file_path_of p n)) = snd (path_splitext p)"
  shows "new_file_path_of (new_file_path_of p n) n = new_file_path_of p n"
proof -
  have name: "CHR ''/'' \<notin> set (n @ snd (path_splitext p))"
    using n ext_nosep[of p] by simp
  have t: "new_file_path_of p n = path_join (path_dirname p) (n @ snd (path_splitext p))"
    by (simp add: new_file_path_of_def)
  have "path_dirname (new_file_path_of p n) = path_dirname p"
    unfolding t by (rule dirname_join[OF name])
  with same show ?thesis
    by (simp add: new_file_path_of_def[of "new_file_path_of p n"] t[symmetric])
qed


section \<open>Renaming twice\<close>

lemma first_failure_v12: "first_failure (RenameImageRequest ''image_123'' ''v1.2'') = None"
  by code_simp

lemma strip_v12: "str_strip ''v1.2'' = ''v1.2''"
  by code_simp

lemma scan_paths:
  "new_file_path_of ''/data/scan'' ''v1.2'' = ''/data/v1.2''"
  "snd (path_splitext ''/data/scan'') = []"
  "new_file_path_of ''/data/v1.2'' ''v1.2'' = ''/data/v1.2.2''"
  "snd (path_splitext ''/data/v1.2'') = ''.2''"
  by code_simp+

lemma run_scan_first:
  "rename_image scan_lookup no_faults (RenameImageRequest ''image_123'' ''v1.2'') scan_world =
     (Inr (RenameImageResponse True (''Successfully renamed image to 'v1.2'' @ [CHR 0x27])),
      scan_world_renamed)"
proof -
  have "rename_image scan_lookup no_faults (RenameImageRequest ''image_123'' ''v1.2'') scan_world
      = rename_on_disk no_faults ''/data/scan'' ''v1.2'' scan_world"
    using rename_image_valid[OF first_failure_v12, of scan_lookup "''/data/scan''" no_faults scan_world]
    by (simp add: strip_image_123 strip_v12 scan_lookup_def)
  also have "\<dots> = (Inr (RenameImageResponse True
                         (''Successfully renamed image to 'v1.2'' @ [CHR 0x27])),
                    scan_world_renamed)"
    by (simp add: disk_defs scan_paths no_faults_def scan_world_def scan_world_renamed_def
        success_message_def fun_eq_iff)
  finally show ?thesis .
qed

lemma run_scan_second:
  "fst (rename_image scan_lookup_synced no_faults (RenameImageRequest ''image_123'' ''v1.2'')
         scan_world_renamed) =
     Inr (RenameImageResponse True (''Successfully renamed image to 'v1.2.2'' @ [CHR 0x27]))"
proof -
  have "rename_image scan_lookup_synced no_faults (RenameImageRequest ''image_123'' ''v1.2'')
          scan_world_renamed
      = rename_on_disk no_faults ''/data/v1.2'' ''v1.2'' scan_world_renamed"
    using rename_image_valid[OF first_failure_v12, of scan_lookup_synced "''/data/v1.2''"
        no_faults scan_world_renamed]
    by (simp add: strip_image_123 strip_v12 scan_lookup_synced_def)
  moreover have "fst (rename_on_disk no_faults ''/data/v1.2'' ''v1.2'' scan_world_renamed) =
      Inr (RenameImageResponse True (''Successfully renamed image to 'v1.2.2'' @ [CHR 0x27]))"
    by (simp add: disk_defs scan_paths no_faults_def scan_world_renamed_def
        success_message_def)
  ultimately show ?thesis by simp
qed

lemma first_failure_scan2: "first_failure (RenameImageRequest padded_id ''scan2'') = None"
  by code_simp

lemma strip_scan2: "str_strip ''scan2'' = ''scan2''"
  by code_simp

lemma new_file_path_scan2: "new_file_path_of ''/data/scan'' ''scan2'' = ''/data/scan2''"
  by code_simp

lemma run_scan2_first:
  "fst (rename_image scan_lookup no_faults (RenameImageRequest padded_id ''scan2'') scan_world) =
     Inr (RenameImageResponse True (''Successfully renamed image to 'scan2'' @ [CHR 0x27]))"
proof -
  have "rename_image scan_lookup no_faults (RenameImageRequest padded_id ''scan2'') scan_world
      = rename_on_disk no_faults ''/data/scan'' ''scan2'' scan_world"
    using rename_image_valid[OF first_failure_scan2, of scan_lookup "''/data/scan''" no_faults
        scan_world]
    by (simp add: strip_padded_id strip_scan2 scan_lookup_def)
  moreover have "fst (rename_on_disk no_faults ''/data/scan'' ''scan2'' scan_world) =
      Inr (RenameImageResponse True (''Successfully renamed image to 'scan2'' @ [CHR 0x27]))"
    by (simp add: disk_defs new_file_path_scan2 scan_paths no_faults_def scan_world_def
        success_message_def)
  ultimately show ?thesis by simp
qed

text \<open>
  Claim C9 (a second identical rename never succeeds), as stated, fails: the image
  \<^verbatim>\<open>/data/scan\<close> has no extension, the new name \<^verbatim>\<open>v1.2\<close> holds a dot. The first call
  renames the file to \<^verbatim>\<open>/data/v1.2\<close>. When the lookup then returns this new path, the
  endpoint takes \<^verbatim>\<open>.2\<close> for the extension, the target is the free path \<^verbatim>\<open>/data/v1.2.2\<close>, and
  the second call succeeds.
\<close>
theorem second_rename_succeeds_counterexample:
  "fst (rename_image scan_lookup no_faults (RenameImageRequest ''image_123'' ''v1.2'')
         scan_world) =
     Inr (RenameImageResponse True (''Successfully renamed image to 'v1.2'' @ [CHR 0x27]))
   \<and> scan_lookup_synced ''image_123'' = Some (new_file_path_of ''/data/scan'' ''v1.2'')
   \<and> fst (rename_image scan_lookup_synced no_faults (RenameImageRequest ''image_123'' ''v1.2'')
           (snd (rename_image scan_lookup no_faults (RenameImageRequest ''image_123'' ''v1.2'')
                  scan_world))) =
       Inr (RenameImageResponse True (''Successfully renamed image to 'v1.2.2'' @ [CHR 0x27]))"
  by (simp add: run_scan_first run_scan_second, simp add: scan_paths scan_lookup_synced_def)

text \<open>
  Claim C9, amended. After a successful rename, the identical request fails with
  \<^verbatim>\<open>Image Not Found\<close> when the lookup has no path for the id, and with \<^verbatim>\<open>File Exists\<close> when the
  lookup still returns the old path, or returns the new path and the new path has the
  extension of the old path. The new path has the extension of the old path whenever the
  old path has an extension or the trimmed new name holds no dot. This holds whatever faults
  the operating system has in store for the second call.
\<close>

theorem second_rename_fails:
  assumes "rename_image lk env r w = (Inr resp, w1)"
    and "lk (str_strip (req_image_id r)) = Some p"
  shows "(lk2 (str_strip (req_image_id r)) = None \<longrightarrow>
            fst (rename_image lk2 env2 r w1) =
              Inl (HTTPException 404 (ErrorResponse False ''Image Not Found''
                     (''Image with ID '' @ [CHR 0x27] @ str_strip (req_image_id r) @ [CHR 0x27]
                      @ '' does not exist.''))))
         \<and> (lk2 (str_strip (req_image_id r)) = Some p \<longrightarrow>
              fst (rename_image lk2 env2 r w1) =
                Inl (HTTPException 400 (ErrorResponse False ''File Exists''
                       ''A file with the new name already exists.'')))
         \<and> (lk2 (str_strip (req_image_id r)) =
                Some (new_file_path_of p (str_strip (req_rename r)))
              \<and> snd (path_splitext (new_file_path_of p (str_strip (req_rename r))))
                  = snd (path_splitext p) \<longrightarrow>
              fst (rename_image lk2 env2 r w1) =
                Inl (HTTPException 400 (ErrorResponse False ''File Exists''
                       ''A file with the new name already exists.'')))
         \<and> (snd (path_splitext p) \<noteq> [] \<or> CHR ''.'' \<notin> set (str_strip (req_rename r)) \<longrightarrow>
              snd (path_splitext (new_file_path_of p (str_strip (req_rename r))))
                = snd (path_splitext p))"
proof -
  let ?i = "str_strip (req_image_id r)" and ?n = "str_strip (req_rename r)"
  let ?t = "new_file_path_of p ?n"
  from rename_image_Inr[OF assms(1)] assms(2)
  have valid: "first_failure r = None" and p: "p \<noteq> []"
    and disk: "rename_on_disk env p ?n w = (Inr resp, w1)"
    by auto
  note n = valid_name[OF valid]
  have taken: "files w1 ?t \<noteq> None"
    by (rule rename_on_disk_success(5)[OF disk])
  have none: "fst (rename_image lk2 env2 r w1) = Inl (not_found_error ?i)"
    if "lk2 ?i = None"
    using that valid by (simp add: rename_image_validation lookup_and_rename_def)
  have old: "fst (rename_image lk2 env2 r w1) = Inl file_exists_error"
    if "lk2 ?i = Some p"
    using rename_image_valid[where lk = lk2 and p = p and env = env2 and w = w1,
        OF valid that p] taken
    by (simp add: rename_on_disk_exists)
  have new: "fst (rename_image lk2 env2 r w1) = Inl file_exists_error"
    if "lk2 ?i = Some ?t" and same: "snd (path_splitext ?t) = snd (path_splitext p)"
  proof -
    have fixed: "new_file_path_of ?t ?n = ?t"
      by (rule new_file_path_fixed_ext[OF n(2) same])
    have "?t \<noteq> []"
      by (rule new_file_path_nonempty[OF n(1)])
    from rename_image_valid[where lk = lk2 and p = ?t and env = env2 and w = w1,
        OF valid that(1) this] taken fixed
    show ?thesis by (simp add: rename_on_disk_exists)
  qed
  have keeps: "snd (path_splitext ?t) = snd (path_splitext p)"
    if "snd (path_splitext p) \<noteq> [] \<or> CHR ''.'' \<notin> set ?n"
    by (rule new_file_path_keeps_ext[OF n(2) n(3) that])
  from none old new keeps show ?thesis
    by (simp add: not_found_error_def file_exists_error_def)
qed

theorem second_rename_fails_witness:
  "rename_image example_lookup no_faults (RenameImageRequest padded_id padded_name)
     example_world =
     (Inr (RenameImageResponse True (''Successfully renamed image to 'new_name.jpg'' @ [CHR 0x27])),
      snd (rename_image example_lookup no_faults (RenameImageRequest padded_id padded_name)
            example_world))
   \<and> example_lookup_synced ''image_123'' = Some (new_file_path_of ''/data/old_name.jpg'' ''new_name'')
   \<and> snd (path_splitext ''/data/old_name.jpg'') \<noteq> []
   \<and> fst (rename_image (\<lambda>i. None) no_faults (RenameImageRequest padded_id padded_name)
           (snd (rename_image example_lookup no_faults
                  (RenameImageRequest padded_id padded_name) example_world))) =
       Inl (HTTPException 404 (ErrorResponse False ''Image Not Found''
              ''Image with ID 'image_123' does not exist.''))
   \<and> fst (rename_image example_lookup no_faults (RenameImageRequest padded_id padded_name)
           (snd (rename_image example_lookup no_faults
                  (RenameImageRequest padded_id padded_name) example_world))) =
       Inl (HTTPException 400 (ErrorResponse False ''File Exists''
              ''A file with the new name already exists.''))
   \<and> fst (rename_image example_lookup_synced no_faults
           (RenameImageRequest padded_id padded_name)
           (snd (rename_image example_lookup no_faults
                  (RenameImageRequest padded_id padded_name) example_world))) =
       Inl (HTTPException 400 (ErrorResponse False ''File Exists''
              ''A file with the new name already exists.''))
   \<and> CHR ''.'' \<notin> set (str_strip ''scan2'')
   \<and> scan2_lookup_synced ''image_123'' = Some (new_file_path_of ''/data/scan'' ''scan2'')
   \<and> fst (rename_image scan2_lookup_synced cleanup_fails (RenameImageRequest padded_id ''scan2'')
           (snd (rename_image scan_lookup no_faults
                  (RenameImageRequest padded_id ''scan2'') scan_world))) =
       Inl (HTTPException 400 (ErrorResponse False ''File Exists''
              ''A file with the new name already exists.''))"
proof -
  let ?r = "RenameImageRequest padded_id padded_name"
  let ?p = "''/data/old_name.jpg''"
  let ?run = "rename_image example_lookup no_faults ?r example_world"
  have first: "?run = (Inr (RenameImageResponse True
                         (''Successfully renamed image to 'new_name.jpg'' @ [CHR 0x27])), snd ?run)"
    by (simp add: rename_image_padded run_example_ok)
  have p: "example_lookup (str_strip (req_image_id ?r)) = Some ?p"
    by (simp add: strip_padded_id example_lookup_image_123)
  have none: "(\<lambda>i. None) (str_strip (req_image_id ?r)) = (None :: string option)"
    by simp
  have synced: "example_lookup_synced (str_strip (req_image_id ?r)) =
                  Some (new_file_path_of ?p (str_strip (req_rename ?r)))"
    by (simp add: strip_padded_id strip_padded_name new_file_path_example example_lookup_synced_def)
  have ext: "snd (path_splitext ?p) \<noteq> []"
    by (simp add: splitext_example)
  note th = second_rename_fails[where lk = example_lookup and env = no_faults and r = ?r
      and w = example_world and p = ?p and ?env2.0 = no_faults, OF first p]
  have same: "snd (path_splitext (new_file_path_of ?p (str_strip (req_rename ?r))))
                = snd (path_splitext ?p)"
    using th[where ?lk2.0 = example_lookup, THEN conjunct2, THEN conjunct2, THEN conjunct2] ext
    by blast
  note part1 =
    th[where ?lk2.0 = "\<lambda>i. None", THEN conjunct1, rule_format, OF none]
    th[where ?lk2.0 = example_lookup, THEN conjunct2, THEN conjunct1, rule_format, OF p]
    th[where ?lk2.0 = example_lookup_synced, THEN conjunct2, THEN conjunct2, THEN conjunct1,
       rule_format, OF conjI[OF synced same]]

  let ?r2 = "RenameImageRequest padded_id ''scan2''"
  let ?q = "''/data/scan''"
  let ?run2 = "rename_image scan_lookup no_faults ?r2 scan_world"
  have first2: "?run2 = (Inr (RenameImageResponse True
                         (''Successfully renamed image to 'scan2'' @ [CHR 0x27])), snd ?run2)"
    using run_scan2_first by (simp add: prod_eq_iff)
  have q: "scan_lookup (str_strip (req_image_id ?r2)) = Some ?q"
    by (simp add: strip_padded_id scan_lookup_def)
  have nodot: "CHR ''.'' \<notin> set (str_strip (req_rename ?r2))"
    by (simp add: strip_scan2)
  have synced2: "scan2_lookup_synced (str_strip (req_image_id ?r2)) =
                  Some (new_file_path_of ?q (str_strip (req_rename ?r2)))"
    by (simp add: strip_padded_id strip_scan2 new_file_path_scan2 scan2_lookup_synced_def)
  note th2 = second_rename_fails[where lk = scan_lookup and env = no_faults and r = ?r2
      and w = scan_world and p = ?q and ?env2.0 = cleanup_fails
      and ?lk2.0 = scan2_lookup_synced, OF first2 q]
  have same2: "snd (path_splitext (new_file_path_of ?q (str_strip (req_rename ?r2))))
                = snd (path_splitext ?q)"
    using th2[THEN conjunct2, THEN conjunct2, THEN conjunct2] nodot by blast
  note part2 = th2[THEN conjunct2, THEN conjunct2, THEN conjunct1, rule_format,
      OF conjI[OF synced2 same2]]
  from part1 part2 first synced ext nodot synced2
  show ?thesis
    by (simp add: strip_padded_id strip_padded_name strip_scan2)
qed


end
